theory Spec2Isabelle
  imports Main
begin

section \<open>JavaScript values of the date model\<close>

text \<open>
  The fields of a \<open>BikramSambat\<close> instance are declared \<open>number | undefined\<close>.
  The accessors turn \<open>undefined\<close> into \<open>NaN\<close>, so a copy of an unset date holds
  \<open>NaN\<close> in its fields. Numbers are modelled as unbounded integers: the class only
  adds, subtracts and compares integers far below \<open>2^53\<close>.
\<close>

datatype jsnum = Undefined | NaN | Num int

text \<open>\<open>!x\<close> is true for \<open>undefined\<close>, \<open>NaN\<close> and \<open>0\<close>.\<close>

fun truthy :: "jsnum \<Rightarrow> bool" where
  "truthy (Num n) = (n \<noteq> 0)"
| "truthy _ = False"

text \<open>\<open>a + b\<close> and \<open>a - b\<close> on numbers: anything but two numbers gives \<open>NaN\<close>.\<close>

fun js_add :: "jsnum \<Rightarrow> jsnum \<Rightarrow> jsnum" where
  "js_add (Num a) (Num b) = Num (a + b)"
| "js_add _ _ = NaN"

fun js_sub :: "jsnum \<Rightarrow> jsnum \<Rightarrow> jsnum" where
  "js_sub (Num a) (Num b) = Num (a - b)"
| "js_sub _ _ = NaN"

text \<open>\<open>a > b\<close> and \<open>a <= b\<close>: false as soon as one side is \<open>NaN\<close> or \<open>undefined\<close>.\<close>

fun js_gt :: "jsnum \<Rightarrow> jsnum \<Rightarrow> bool" where
  "js_gt (Num a) (Num b) = (a > b)"
| "js_gt _ _ = False"

fun js_le :: "jsnum \<Rightarrow> jsnum \<Rightarrow> bool" where
  "js_le (Num a) (Num b) = (a \<le> b)"
| "js_le _ _ = False"

text \<open>\<open>x ?? NaN\<close>\<close>

fun or_NaN :: "jsnum \<Rightarrow> jsnum" where
  "or_NaN Undefined = NaN"
| "or_NaN v = v"

text \<open>Reading \<open>xs[i]\<close> from an array: \<open>undefined\<close> outside the array.\<close>

fun js_index :: "'a list \<Rightarrow> jsnum \<Rightarrow> 'a option" where
  "js_index xs (Num i) = (if 0 \<le> i \<and> i < int (length xs) then Some (xs ! nat i) else None)"
| "js_index xs _ = None"

text \<open>Exceptions: the \<open>TypeError\<close> of reading a property of \<open>undefined\<close>, and the
  \<open>LookupError\<close> of the table helpers.\<close>

datatype error = TypeError | LookupError

section \<open>Month descriptors (data/nepali-months.ts)\<close>

text \<open>A JavaScript string is a sequence of UTF-16 code units; the Nepali names are
  kept as such.\<close>

record Month =
  en :: string
  np :: "nat list"
  ad :: string

definition NepaliMonthsData :: "Month list" where
  "NepaliMonthsData =
    [\<lparr>en = ''Baisakh'', np = [2348, 2376, 2358, 2366, 2326], ad = ''Apr/May''\<rparr>,
     \<lparr>en = ''Jestha'', np = [2332, 2375, 2336], ad = ''May/Jun''\<rparr>,
     \<lparr>en = ''Ashad'', np = [2309, 2360, 2366, 2352], ad = ''Jun/Jul''\<rparr>,
     \<lparr>en = ''Shrawn'', np = [2358, 2381, 2352, 2366, 2357, 2339], ad = ''Jul/Aug''\<rparr>,
     \<lparr>en = ''Bhadra'', np = [2349, 2342, 2380], ad = ''Aug/Sep''\<rparr>,
     \<lparr>en = ''Ashoj'', np = [2310, 2358, 2381, 2357, 2367, 2344], ad = ''Sep/Oct''\<rparr>,
     \<lparr>en = ''Kartik'', np = [2325, 2366, 2352, 2381, 2340, 2367, 2325], ad = ''Oct/Nov''\<rparr>,
     \<lparr>en = ''Mangshir'', np = [2350, 2306, 2360, 2367, 2352], ad = ''Nov/Dec''\<rparr>,
     \<lparr>en = ''Paush'', np = [2346, 2369, 2359], ad = ''Dec/Jan''\<rparr>,
     \<lparr>en = ''Magh'', np = [2350, 2366, 2328], ad = ''Jan/Feb''\<rparr>,
     \<lparr>en = ''Falgun'', np = [2347, 2366, 2354, 2381, 2327, 2369, 2344], ad = ''Feb/Mar''\<rparr>,
     \<lparr>en = ''Chaitra'', np = [2330, 2376, 2340, 2381, 2352], ad = ''Mar/Apr''\<rparr>]"

section \<open>The BikramSambat class\<close>

record BikramSambat =
  year :: jsnum
  month :: jsnum
  day :: jsnum

definition unset :: BikramSambat where
  "unset = \<lparr>year = Undefined, month = Undefined, day = Undefined\<rparr>"

definition getYear :: "BikramSambat \<Rightarrow> jsnum" where
  "getYear this = or_NaN (year this)"

definition getMonth :: "BikramSambat \<Rightarrow> jsnum" where
  "getMonth this = or_NaN (month this)"

definition getDay :: "BikramSambat \<Rightarrow> jsnum" where
  "getDay this = or_NaN (day this)"


subsection \<open>What the class imports\<close>

text \<open>
  The calendar tables, the parser and the helper for the order of the format components
  are imported by the class and are not part of the sources at hand; they are parameters
  of the model. \<open>DaysInMonthsMappingData\<close> maps a BS year to the lengths of its months,
  \<open>NewYearMappingData\<close> maps a BS year to the Gregorian date of its New Year. Both are
  object literals keyed by year, read here in increasing key order.
\<close>

text \<open>
  A JavaScript \<open>Date\<close> is a time value or \<open>NaN\<close> (which prints as "Invalid Date").
  Time of day and time zones are outside the scope of the library, so the time value is
  kept at the granularity the library works at: the number of the day, counted from a
  fixed epoch of the proleptic Gregorian calendar.
\<close>

datatype Date = NaNDate | Day int

text \<open>The parser returns the three components or a string (the invalid marker).\<close>

datatype parsed = ParseError string | Parsed jsnum jsnum jsnum

record deps =
  DaysInMonthsMappingData :: "(int \<times> int list) list"
  NewYearMappingData :: "(int \<times> int) list"
  parse :: "string \<Rightarrow> parsed"
  generateDateFormatOrder :: "string \<Rightarrow> string list"
  Date_parse :: "string \<Rightarrow> Date"

definition InvalidDate :: string where
  "InvalidDate = ''Invalid Date''"

subsection \<open>Calendar tables and day arithmetic helpers\<close>

text \<open>
  Modelled from the spec: the lookup \<open>daysInMonth(bsYear, month)\<close> of the Calendar
  Tables (section 4.1), which is not among the sources. It fails with \<open>LookupError\<close>
  if the year or the month (1..12) is out of range.
\<close>

definition daysInMonthOf :: "deps \<Rightarrow> int \<Rightarrow> int \<Rightarrow> error + int" where
  "daysInMonthOf E bsYear m =
    (case map_of (DaysInMonthsMappingData E) bsYear of
       None \<Rightarrow> Inl LookupError
     | Some row \<Rightarrow>
         if 1 \<le> m \<and> m \<le> 12 \<and> m \<le> int (length row) then Inr (row ! nat (m - 1))
         else Inl LookupError)"

text \<open>
  Modelled from the spec: \<open>isDayValid\<close> of the parser module (\<open>isValidDay\<close> in
  section 4.4), which is not among the sources: the boolean
  \<open>1 \<le> day \<le> daysInMonth(year, month)\<close>. The lookup \<open>daysInMonth\<close> fails with
  \<open>LookupError\<close> for a year or a month out of range (section 4.1), and such a failure
  is surfaced to the caller, not defaulted (section 7). A year or a month that is not a
  number is out of range; a day that is not a number is not within the bounds.
\<close>

fun isDayValid :: "deps \<Rightarrow> jsnum \<Rightarrow> jsnum \<Rightarrow> jsnum \<Rightarrow> error + bool" where
  "isDayValid E (Num y) (Num m) d =
    (case daysInMonthOf E y m of
       Inl e \<Rightarrow> Inl e
     | Inr n \<Rightarrow> Inr (js_le (Num 1) d \<and> js_le d (Num n)))"
| "isDayValid E _ _ _ = Inl LookupError"

text \<open>
  Modelled from the spec: \<open>getDaysFromBsNewYear\<close> (\<open>daysFromBsNewYear\<close> in section
  4.2), which is not among the sources: the sum of \<open>daysInMonth(year, m)\<close> for \<open>m\<close> in
  \<open>1..month-1\<close>, plus \<open>day\<close>; it fails with \<open>LookupError\<close> if a table lookup fails
  and does not validate the day.
\<close>

fun sum_months :: "deps \<Rightarrow> int \<Rightarrow> nat \<Rightarrow> error + int" where
  "sum_months E y 0 = Inr 0"
| "sum_months E y (Suc k) =
    (case sum_months E y k of
       Inl e \<Rightarrow> Inl e
     | Inr s \<Rightarrow> (case daysInMonthOf E y (int (Suc k)) of Inl e \<Rightarrow> Inl e | Inr n \<Rightarrow> Inr (s + n)))"

definition getDaysFromBsNewYear :: "deps \<Rightarrow> int \<Rightarrow> int \<Rightarrow> int \<Rightarrow> error + int" where
  "getDaysFromBsNewYear E y m d =
    (case sum_months E y (nat (m - 1)) of Inl e \<Rightarrow> Inl e | Inr s \<Rightarrow> Inr (s + d))"

text \<open>
  Modelled from the spec: \<open>addDaysToGregorianDate\<close> (section 4.2), which is not among
  the sources: the calendar date \<open>n\<close> days after \<open>date\<close>. On day numbers this is
  addition; a \<open>Date\<close> without a time value stays without one.
\<close>

fun addDaysToGregorianDate :: "Date \<Rightarrow> int \<Rightarrow> Date" where
  "addDaysToGregorianDate (Day g) n = Day (g + n)"
| "addDaysToGregorianDate NaNDate n = NaNDate"

text \<open>
  Modelled from the spec: \<open>getDaysBetweenTwoAdDates\<close> (\<open>daysBetween\<close> in section
  4.2), which is not among the sources: the signed day count from \<open>B\<close> to \<open>A\<close>,
  \<open>A - B\<close> on day numbers.
\<close>

fun getDaysBetweenTwoAdDates :: "Date \<Rightarrow> Date \<Rightarrow> jsnum" where
  "getDaysBetweenTwoAdDates (Day a) (Day b) = Num (a - b)"
| "getDaysBetweenTwoAdDates _ _ = NaN"

text \<open>
  Modelled from the spec: \<open>getNewYearDateInfo\<close> (the New-Year Resolver of section
  4.3), which is not among the sources: scan the table in increasing year order for the
  BS year whose New Year is \<open>\<le> adDate\<close> and whose successor year's New Year is
  \<open>> adDate\<close>; return that New Year and the year; fail with \<open>LookupError\<close> when the
  table is exhausted.
\<close>

fun scanNewYears :: "deps \<Rightarrow> (int \<times> int) list \<Rightarrow> int \<Rightarrow> error + (int \<times> int)" where
  "scanNewYears E [] g = Inl LookupError"
| "scanNewYears E ((bsYear, newYearDate) # rest) g =
    (case map_of (NewYearMappingData E) (bsYear + 1) of
       None \<Rightarrow> scanNewYears E rest g
     | Some next \<Rightarrow>
         if newYearDate \<le> g \<and> g < next then Inr (newYearDate, bsYear)
         else scanNewYears E rest g)"

fun getNewYearDateInfo :: "deps \<Rightarrow> Date \<Rightarrow> error + (int \<times> int)" where
  "getNewYearDateInfo E (Day g) = scanNewYears E (NewYearMappingData E) g"
| "getNewYearDateInfo E NaNDate = Inl LookupError"

subsection \<open>Printing numbers\<close>

definition digit :: "nat \<Rightarrow> char" where
  "digit n = ''0123456789'' ! n"

function show_nat :: "nat \<Rightarrow> string" where
  "show_nat n = (if n < 10 then [digit n] else show_nat (n div 10) @ [digit (n mod 10)])"
  by pat_completeness auto
termination
  by (relation "measure (\<lambda>n. n)") auto

definition show_int :: "int \<Rightarrow> string" where
  "show_int i = (if i < 0 then CHR ''-'' # show_nat (nat (- i)) else show_nat (nat i))"

text \<open>Template literals and \<open>toString()\<close> on a number.\<close>

fun show_num :: "jsnum \<Rightarrow> string" where
  "show_num (Num i) = show_int i"
| "show_num NaN = ''NaN''"
| "show_num Undefined = ''undefined''"

definition padStart :: "nat \<Rightarrow> char \<Rightarrow> string \<Rightarrow> string" where
  "padStart n c s = replicate (n - length s) c @ s"




subsection \<open>Constructor\<close>

datatype ctor_arg = NoArg | FromString string | FromDate BikramSambat

definition construct :: "deps \<Rightarrow> ctor_arg \<Rightarrow> BikramSambat" where
  "construct E dateStr =
    (case dateStr of
       FromString s \<Rightarrow>
         (case parse E s of
            ParseError _ \<Rightarrow> \<lparr>year = Undefined, month = Undefined, day = Undefined\<rparr>
          | Parsed y m d \<Rightarrow> \<lparr>year = y, month = m, day = d\<rparr>)
     | FromDate other \<Rightarrow> \<lparr>year = getYear other, month = getMonth other, day = getDay other\<rparr>
     | NoArg \<Rightarrow> \<lparr>year = Undefined, month = Undefined, day = Undefined\<rparr>)"

subsection \<open>toString\<close>

text \<open>\<open>toString\<close> has no handler around \<open>isDayValid\<close>: an exception raised there
  leaves \<open>toString\<close>.\<close>

definition toString :: "deps \<Rightarrow> BikramSambat \<Rightarrow> error + string" where
  "toString E this =
    (if year this = Undefined \<or> month this = Undefined \<or> day this = Undefined
     then Inr InvalidDate
     else case isDayValid E (year this) (month this) (day this) of
            Inl e \<Rightarrow> Inl e
          | Inr valid \<Rightarrow>
              if \<not> valid then Inr InvalidDate
              else Inr (show_num (year this) @ ''-''
                          @ padStart 2 (CHR ''0'') (show_num (month this)) @ ''-''
                          @ padStart 2 (CHR ''0'') (show_num (day this))))"

subsection \<open>getDaysInMonth\<close>

text \<open>\<open>daysInMonthMap[this.year][this.month - 1]\<close>: a year that is not a key of the
  table gives \<open>undefined\<close>, and indexing \<open>undefined\<close> throws a \<open>TypeError\<close>; an index
  outside the row gives \<open>undefined\<close>.\<close>

definition getDaysInMonth :: "deps \<Rightarrow> BikramSambat \<Rightarrow> error + jsnum" where
  "getDaysInMonth E this =
    (if month this = Undefined \<or> year this = Undefined then Inr NaN
     else case year this of
            Num y \<Rightarrow>
              (case map_of (DaysInMonthsMappingData E) y of
                 None \<Rightarrow> Inl TypeError
               | Some row \<Rightarrow>
                   (case js_index row (js_sub (month this) (Num 1)) of
                      None \<Rightarrow> Inr Undefined
                    | Some n \<Rightarrow> Inr (Num n)))
          | _ \<Rightarrow> Inl TypeError)"

subsection \<open>addYears, addMonths, addDays\<close>

definition addYears :: "jsnum \<Rightarrow> BikramSambat \<Rightarrow> BikramSambat" where
  "addYears years this =
    (if year this = Undefined then this else this\<lparr>year := js_add (year this) years\<rparr>)"

text \<open>The closure \<open>adjustYear\<close> of \<open>addMonths\<close>; \<open>this\<close> is passed and returned.\<close>

function adjustYear :: "deps \<Rightarrow> BikramSambat \<Rightarrow> jsnum \<Rightarrow> int \<Rightarrow> error + BikramSambat" where
  "adjustYear E this remainingMonths yearsToAdd =
    (if js_gt remainingMonths (Num 12) then
       adjustYear E this (js_sub remainingMonths (Num 12)) (yearsToAdd + 1)
     else if js_le remainingMonths (Num 0) then
       adjustYear E this (js_add remainingMonths (Num 12)) (yearsToAdd - 1)
     else
       (let this1 = addYears (Num yearsToAdd) (this\<lparr>month := remainingMonths\<rparr>) in
        case getDaysInMonth E this1 of
          Inl e \<Rightarrow> Inl e
        | Inr daysInCurrentMonth \<Rightarrow>
            Inr (if truthy (day this1) \<and> js_gt (day this1) daysInCurrentMonth
                 then this1\<lparr>day := daysInCurrentMonth\<rparr> else this1)))"
  by pat_completeness auto
termination
proof (relation "measure (\<lambda>(E, this, r, y).
    case r of Num k \<Rightarrow> (if k > 12 then nat k else if k \<le> 0 then nat (13 - k) else 0) | _ \<Rightarrow> 0)")
  show "wf (measure (\<lambda>(E, this, r, y).
    case r of Num k \<Rightarrow> (if k > 12 then nat k else if k \<le> 0 then nat (13 - k) else 0) | _ \<Rightarrow> 0))"
    by simp
next
  fix E :: deps and this :: BikramSambat and remainingMonths :: jsnum and yearsToAdd :: int
  assume "js_gt remainingMonths (Num 12)"
  then show "((E, this, js_sub remainingMonths (Num 12), yearsToAdd + 1),
              (E, this, remainingMonths, yearsToAdd)) \<in> measure (\<lambda>(E, this, r, y).
    case r of Num k \<Rightarrow> (if k > 12 then nat k else if k \<le> 0 then nat (13 - k) else 0) | _ \<Rightarrow> 0)"
    by (cases remainingMonths) auto
next
  fix E :: deps and this :: BikramSambat and remainingMonths :: jsnum and yearsToAdd :: int
  assume "\<not> js_gt remainingMonths (Num 12)" "js_le remainingMonths (Num 0)"
  then show "((E, this, js_add remainingMonths (Num 12), yearsToAdd - 1),
              (E, this, remainingMonths, yearsToAdd)) \<in> measure (\<lambda>(E, this, r, y).
    case r of Num k \<Rightarrow> (if k > 12 then nat k else if k \<le> 0 then nat (13 - k) else 0) | _ \<Rightarrow> 0)"
    by (cases remainingMonths) auto
qed

definition addMonths :: "deps \<Rightarrow> jsnum \<Rightarrow> BikramSambat \<Rightarrow> error + BikramSambat" where
  "addMonths E months this =
    (if month this = Undefined \<or> year this = Undefined then Inr this
     else adjustYear E this (js_add (month this) months) 0)"

text \<open>The closure \<open>adjustMonth\<close> of \<open>addDays\<close>. It reads \<open>daysInMonth\<close> once, on
  entry, before \<open>addMonths\<close> moves the date. The recursion ends only when the
  remaining days fit the month, so the result is optional: \<open>None\<close> is a call that does
  not return.\<close>

partial_function (option) adjustMonth ::
  "deps \<Rightarrow> BikramSambat \<Rightarrow> jsnum \<Rightarrow> (error + BikramSambat) option" where
  "adjustMonth E this remainingDays =
    (case getDaysInMonth E this of
       Inl e \<Rightarrow> Some (Inl e)
     | Inr daysInMonth \<Rightarrow>
         if js_gt remainingDays daysInMonth then
           (case addMonths E (Num 1) this of
              Inl e \<Rightarrow> Some (Inl e)
            | Inr this1 \<Rightarrow> adjustMonth E this1 (js_sub remainingDays daysInMonth))
         else if js_le remainingDays (Num 0) then
           (case addMonths E (Num (- 1)) this of
              Inl e \<Rightarrow> Some (Inl e)
            | Inr this1 \<Rightarrow> adjustMonth E this1 (js_add daysInMonth remainingDays))
         else Some (Inr (this\<lparr>day := remainingDays\<rparr>)))"

declare adjustMonth.simps [code]

definition addDays :: "deps \<Rightarrow> jsnum \<Rightarrow> BikramSambat \<Rightarrow> (error + BikramSambat) option" where
  "addDays E days this =
    (if day this = Undefined \<or> month this = Undefined then Some (Inr this)
     else adjustMonth E this (js_add (day this) days))"

subsection \<open>toGregorian, toBikramSambat\<close>

text \<open>\<open>new Date(x)\<close> for an entry of the New Year table; a missing entry is
  \<open>undefined\<close>, which gives a \<open>Date\<close> without a time value.\<close>

fun new_Date :: "int option \<Rightarrow> Date" where
  "new_Date (Some g) = Day g"
| "new_Date None = NaNDate"

text \<open>\<open>new Date()\<close> reads the system clock; its reading is the parameter \<open>now\<close>.\<close>

definition toGregorian :: "deps \<Rightarrow> int \<Rightarrow> BikramSambat \<Rightarrow> error + Date" where
  "toGregorian E now this =
    (if \<not> truthy (year this) \<or> \<not> truthy (month this) \<or> \<not> truthy (day this) then Inr (Day now)
     else case (year this, month this, day this) of
       (Num y, Num m, Num d) \<Rightarrow>
         (case getDaysFromBsNewYear E y m d of
            Inl e \<Rightarrow> Inl e
          | Inr daysFromNewYear \<Rightarrow>
              (let newYearDayAD = map_of (NewYearMappingData E) y
               in Inr (addDaysToGregorianDate (new_Date newYearDayAD) (daysFromNewYear - 1))))
     | _ \<Rightarrow> Inr (Day now))"

definition static_toGregorian :: "deps \<Rightarrow> int \<Rightarrow> ctor_arg \<Rightarrow> error + Date" where
  "static_toGregorian E now date = toGregorian E now (construct E date)"

datatype ad_arg = NoDate | DateString string | DateObject Date

definition toBikramSambat :: "deps \<Rightarrow> ad_arg \<Rightarrow> (error + BikramSambat) option" where
  "toBikramSambat E date =
    (if date = NoDate \<or> date = DateString [] then Some (Inr (construct E NoArg))
     else
       (let gregorianDate =
              (case date of DateString s \<Rightarrow> Date_parse E s | DateObject d \<Rightarrow> d | NoDate \<Rightarrow> NaNDate)
        in if gregorianDate = NaNDate then Some (Inr (construct E NoArg))
           else case getNewYearDateInfo E gregorianDate of
                  Inl e \<Rightarrow> Some (Inl e)
                | Inr (newYearDate, bsYear) \<Rightarrow>
                    (let daysFromNewYear = getDaysBetweenTwoAdDates gregorianDate (Day newYearDate);
                         bsDate = construct E (FromString (show_int bsYear @ ''-01-01''))
                     in addDays E daysFromNewYear bsDate)))"

subsection \<open>getPreviousMonth, getNextMonth\<close>

text \<open>The result type is \<open>Month | null\<close>; reading the array outside its bounds
  gives \<open>undefined\<close>.\<close>

datatype month_ref = Null | Missing | Descriptor Month

fun month_at :: "jsnum \<Rightarrow> month_ref" where
  "month_at i = (case js_index NepaliMonthsData i of None \<Rightarrow> Missing | Some m \<Rightarrow> Descriptor m)"

text \<open>\<open>a % 12\<close> keeps the sign of \<open>a\<close>.\<close>

fun js_rem :: "jsnum \<Rightarrow> int \<Rightarrow> jsnum" where
  "js_rem (Num a) b = (if b = 0 then NaN else Num (if a < 0 then - ((- a) mod \<bar>b\<bar>) else a mod \<bar>b\<bar>))"
| "js_rem _ b = NaN"

definition getPreviousMonth :: "BikramSambat \<Rightarrow> month_ref" where
  "getPreviousMonth this =
    (if \<not> truthy (month this) then Null
     else let m = (if month this = Num 1 then Num 12 else js_sub (month this) (Num 1))
          in month_at (js_sub m (Num 1)))"

definition getNextMonth :: "BikramSambat \<Rightarrow> month_ref" where
  "getNextMonth this =
    (if \<not> truthy (month this) then Null
     else let m = js_rem (js_add (month this) (Num 1)) 12
          in month_at (js_sub m (Num 1)))"


subsection \<open>format\<close>




section \<open>The algorithms as the specification words them\<close>

text \<open>
  \<open>addMonths\<close> in the specification: compute \<open>total = month + n\<close>. While
  \<open>total > 12\<close>: \<open>total -= 12\<close>, \<open>years += 1\<close>. While \<open>total \<le> 0\<close>:
  \<open>total += 12\<close>, \<open>years -= 1\<close>. Set \<open>month = total\<close>, apply \<open>addYears(years)\<close>.
  Then, if \<open>day > daysInMonth(year, month)\<close>, clamp the day to it.
\<close>

function spec_carry_up :: "int \<Rightarrow> int \<Rightarrow> int \<times> int" where
  "spec_carry_up tot years =
    (if tot > 12 then spec_carry_up (tot - 12) (years + 1) else (tot, years))"
  by pat_completeness auto
termination
  by (relation "measure (\<lambda>(tot, years). nat tot)") auto

function spec_carry_down :: "int \<Rightarrow> int \<Rightarrow> int \<times> int" where
  "spec_carry_down tot years =
    (if tot \<le> 0 then spec_carry_down (tot + 12) (years - 1) else (tot, years))"
  by pat_completeness auto
termination
  by (relation "measure (\<lambda>(tot, years). nat (1 - tot))") auto

definition spec_addMonths :: "deps \<Rightarrow> int \<Rightarrow> int \<times> int \<times> int \<Rightarrow> error + int \<times> int \<times> int" where
  "spec_addMonths E n date =
    (case date of (y, m, d) \<Rightarrow>
       (case spec_carry_up (m + n) 0 of (t1, y1) \<Rightarrow>
          (case spec_carry_down t1 y1 of (tot, years) \<Rightarrow>
             (case daysInMonthOf E (y + years) tot of
                Inl e \<Rightarrow> Inl e
              | Inr len \<Rightarrow> Inr (y + years, tot, if d > len then len else d)))))"

text \<open>
  \<open>addDays\<close> in the specification: compute \<open>total = day + n\<close>. While
  \<open>total > daysInMonth(currentYear, currentMonth)\<close>: subtract that month's length from
  \<open>total\<close>, \<open>addMonths(1)\<close>. While \<open>total \<le> 0\<close>: \<open>addMonths(-1)\<close>, add the (new)
  current month's length to \<open>total\<close>. Set \<open>day = total\<close>.
\<close>

partial_function (option) spec_days_up ::
  "deps \<Rightarrow> int \<times> int \<times> int \<Rightarrow> int \<Rightarrow> (error + (int \<times> int \<times> int) \<times> int) option" where
  "spec_days_up E date tot =
    (case daysInMonthOf E (fst date) (fst (snd date)) of
       Inl e \<Rightarrow> Some (Inl e)
     | Inr len \<Rightarrow>
         if tot > len then
           (case spec_addMonths E 1 date of
              Inl e \<Rightarrow> Some (Inl e)
            | Inr date1 \<Rightarrow> spec_days_up E date1 (tot - len))
         else Some (Inr (date, tot)))"

declare spec_days_up.simps [code]

partial_function (option) spec_days_down ::
  "deps \<Rightarrow> int \<times> int \<times> int \<Rightarrow> int \<Rightarrow> (error + (int \<times> int \<times> int) \<times> int) option" where
  "spec_days_down E date tot =
    (if tot \<le> 0 then
       (case spec_addMonths E (- 1) date of
          Inl e \<Rightarrow> Some (Inl e)
        | Inr date1 \<Rightarrow>
            (case daysInMonthOf E (fst date1) (fst (snd date1)) of
               Inl e \<Rightarrow> Some (Inl e)
             | Inr len \<Rightarrow> spec_days_down E date1 (tot + len)))
     else Some (Inr (date, tot)))"

declare spec_days_down.simps [code]

definition spec_addDays ::
  "deps \<Rightarrow> int \<Rightarrow> int \<times> int \<times> int \<Rightarrow> (error + int \<times> int \<times> int) option" where
  "spec_addDays E n date =
    (case spec_days_up E date (snd (snd date) + n) of
       None \<Rightarrow> None
     | Some (Inl e) \<Rightarrow> Some (Inl e)
     | Some (Inr (date1, total1)) \<Rightarrow>
         (case spec_days_down E date1 total1 of
            None \<Rightarrow> None
          | Some (Inl e) \<Rightarrow> Some (Inl e)
          | Some (Inr (date2, total2)) \<Rightarrow> Some (Inr (fst date2, fst (snd date2), total2))))"

section \<open>Well-formed tables and an instance\<close>

text \<open>Every tabulated year has twelve months of at least one day.\<close>

definition rows_ok :: "deps \<Rightarrow> bool" where
  "rows_ok E =
    list_all (\<lambda>(y, row). length row = 12 \<and> list_all (\<lambda>n. 1 \<le> n) row) (DaysInMonthsMappingData E)"





text \<open>
  An instance of the parameters, for evaluating the class at concrete dates: the
  months of BS 2074 to 2077 and the New Years of 2074 to 2078 (14 April 2017, 2018 and
  2019, 13 April 2020, 14 April 2021, as day numbers from 1 January 1970). In 2075 Ashad
  has 32 days and Shrawan 31, as the comment in \<open>addMonths\<close> says. The parser of the
  instance reads \<open>YYYY-MM-DD\<close> written with four, two and two digits.
\<close>

definition digit_value :: "char \<Rightarrow> int option" where
  "digit_value c = map_of (zip ''0123456789'' [0, 1, 2, 3, 4, 5, 6, 7, 8, 9]) c"

fun read_digits :: "int \<Rightarrow> string \<Rightarrow> int option" where
  "read_digits acc [] = Some acc"
| "read_digits acc (c # cs) =
    (case digit_value c of None \<Rightarrow> None | Some v \<Rightarrow> read_digits (10 * acc + v) cs)"

fun example_parse :: "string \<Rightarrow> parsed" where
  "example_parse [y1, y2, y3, y4, s1, m1, m2, s2, d1, d2] =
    (if s1 = CHR ''-'' \<and> s2 = CHR ''-'' then
       (case (read_digits 0 [y1, y2, y3, y4], read_digits 0 [m1, m2], read_digits 0 [d1, d2]) of
          (Some y, Some m, Some d) \<Rightarrow>
            if 1 \<le> m \<and> m \<le> 12 \<and> 1 \<le> d \<and> d \<le> 32 then Parsed (Num y) (Num m) (Num d)
            else ParseError ''Invalid Date''
        | _ \<Rightarrow> ParseError ''Invalid Date'')
     else ParseError ''Invalid Date'')"
| "example_parse _ = ParseError ''Invalid Date''"

definition example_deps :: deps where
  "example_deps =
    \<lparr>DaysInMonthsMappingData =
       [(2074, [31, 31, 31, 32, 31, 31, 30, 29, 30, 29, 30, 30]),
        (2075, [31, 31, 32, 31, 31, 31, 30, 29, 30, 29, 30, 30]),
        (2076, [31, 32, 31, 32, 31, 30, 30, 30, 29, 29, 30, 30]),
        (2077, [31, 32, 31, 32, 31, 30, 30, 30, 29, 30, 29, 31])],
     NewYearMappingData =
       [(2074, 17270), (2075, 17635), (2076, 18000), (2077, 18365), (2078, 18731)],
     parse = example_parse,
     generateDateFormatOrder = (\<lambda>f. [''year'', ''month'', ''day'']),
     Date_parse = (\<lambda>s. NaNDate)\<rparr>"


section \<open>Properties\<close>

subsection \<open>Neighbouring months\<close>

lemma getPreviousMonth_cyclic:
  assumes "1 \<le> m" "m \<le> 12"
  shows "getPreviousMonth \<lparr>year = y, month = Num m, day = d\<rparr> =
         Descriptor (NepaliMonthsData ! nat ((if m = 1 then 12 else m - 1) - 1))"
  using assms by (auto simp: getPreviousMonth_def Let_def NepaliMonthsData_def)

lemma getNextMonth_not_11:
  assumes "1 \<le> m" "m \<le> 12" "m \<noteq> 11"
  shows "getNextMonth \<lparr>year = y, month = Num m, day = d\<rparr> =
         Descriptor (NepaliMonthsData ! nat ((if m = 12 then 1 else m + 1) - 1))"
proof -
  have "m = 1 \<or> m = 2 \<or> m = 3 \<or> m = 4 \<or> m = 5 \<or> m = 6 \<or> m = 7 \<or> m = 8 \<or> m = 9
        \<or> m = 10 \<or> m = 12"
    using assms by arith
  then show ?thesis
    by (auto simp: getNextMonth_def Let_def NepaliMonthsData_def)
qed

text \<open>
  C6. In Falgun (month 11) the month after is Chaitra, the twelfth descriptor.
  \<open>getNextMonth\<close> computes \<open>(11 + 1) % 12 = 0\<close> and reads \<open>nepaliMonths[-1]\<close>,
  which is \<open>undefined\<close>: no descriptor is returned, although the date is set.
\<close>

theorem getNextMonth_Falgun_undefined:
  "getNextMonth \<lparr>year = Num 2077, month = Num 11, day = Num 15\<rparr> = Missing \<and>
   month_at (Num (12 - 1)) = Descriptor \<lparr>en = ''Chaitra'', np = [2330, 2376, 2340, 2381, 2352], ad = ''Mar/Apr''\<rparr>"
  by (simp add: getNextMonth_def NepaliMonthsData_def)

subsection \<open>addMonths\<close>

declare adjustYear.simps [simp del] spec_carry_up.simps [simp del] spec_carry_down.simps [simp del]

lemma map_of_rows_ok:
  assumes "rows_ok E" "map_of (DaysInMonthsMappingData E) y = Some row"
  shows "length row = 12 \<and> (\<forall>n \<in> set row. 1 \<le> n)"
proof -
  from assms(2) have "(y, row) \<in> set (DaysInMonthsMappingData E)" by (rule map_of_SomeD)
  with assms(1) show ?thesis by (auto simp: rows_ok_def list_all_iff)
qed

lemma adjustYear_carry_up:
  "adjustYear E this (Num r) ys = (case spec_carry_up r ys of (t, y1) \<Rightarrow> adjustYear E this (Num t) y1)"
proof (induction r ys rule: spec_carry_up.induct)
  case (1 tot years)
  show ?case
  proof (cases "tot > 12")
    case True
    then have "adjustYear E this (Num tot) years = adjustYear E this (Num (tot - 12)) (years + 1)"
      by (subst adjustYear.simps) simp
    also have "\<dots> = (case spec_carry_up (tot - 12) (years + 1) of (t, y1) \<Rightarrow> adjustYear E this (Num t) y1)"
      using 1 True by simp
    also have "spec_carry_up (tot - 12) (years + 1) = spec_carry_up tot years"
      using True by (subst (2) spec_carry_up.simps) simp
    finally show ?thesis .
  next
    case False
    then show ?thesis by (subst spec_carry_up.simps) simp
  qed
qed

lemma spec_carry_up_le: "fst (spec_carry_up r ys) \<le> 12"
proof (induction r ys rule: spec_carry_up.induct)
  case (1 tot years)
  then show ?case by (subst spec_carry_up.simps) simp
qed

lemma adjustYear_carry_down:
  "t \<le> 12 \<Longrightarrow>
   adjustYear E this (Num t) ys = (case spec_carry_down t ys of (t2, y2) \<Rightarrow> adjustYear E this (Num t2) y2)"
proof (induction t ys rule: spec_carry_down.induct)
  case (1 tot years)
  show ?case
  proof (cases "tot \<le> 0")
    case True
    then have "adjustYear E this (Num tot) years = adjustYear E this (Num (tot + 12)) (years - 1)"
      by (subst adjustYear.simps) simp
    also have "\<dots> = (case spec_carry_down (tot + 12) (years - 1) of (t2, y2) \<Rightarrow> adjustYear E this (Num t2) y2)"
      using 1 True by simp
    also have "spec_carry_down (tot + 12) (years - 1) = spec_carry_down tot years"
      using True by (subst (2) spec_carry_down.simps) simp
    finally show ?thesis .
  next
    case False
    then show ?thesis by (subst spec_carry_down.simps) simp
  qed
qed

lemma spec_carry_down_range: "t \<le> 12 \<Longrightarrow> 1 \<le> fst (spec_carry_down t ys) \<and> fst (spec_carry_down t ys) \<le> 12"
proof (induction t ys rule: spec_carry_down.induct)
  case (1 tot years)
  then show ?case by (subst (1 2) spec_carry_down.simps) simp
qed

lemma adjustYear_settled:
  assumes "rows_ok E" "1 \<le> t" "t \<le> 12"
  shows "adjustYear E \<lparr>year = Num y, month = mo, day = Num d\<rparr> (Num t) ys =
    (case daysInMonthOf E (y + ys) t of
       Inl e \<Rightarrow> Inl TypeError
     | Inr len \<Rightarrow> Inr \<lparr>year = Num (y + ys), month = Num t, day = Num (if d > len then len else d)\<rparr>)"
proof (cases "map_of (DaysInMonthsMappingData E) (y + ys)")
  case None
  then show ?thesis using assms(2,3)
    by (subst adjustYear.simps) (simp add: addYears_def getDaysInMonth_def daysInMonthOf_def)
next
  case (Some row)
  from map_of_rows_ok [OF assms(1) Some] have len: "length row = 12" and pos: "\<forall>n \<in> set row. 1 \<le> n"
    by auto
  have idx: "nat (t - 1) < length row" using assms(2,3) len by simp
  then have "row ! nat (t - 1) \<in> set row" by simp
  with pos have "1 \<le> row ! nat (t - 1)" by blast
  then show ?thesis using assms(2,3) Some len
    by (subst adjustYear.simps) (auto simp: addYears_def getDaysInMonth_def daysInMonthOf_def)
qed

text \<open>
  C7. On a set date, \<open>addMonths(n)\<close> is the algorithm of the specification: the two
  carry loops on \<open>month + n\<close>, the year moved by the carried years, and the day clamped
  to the length of the resulting month; when the resulting year is not tabulated, both
  fail. The tables have twelve months of at least one day in every year.
\<close>

theorem addMonths_refines_spec:
  assumes "rows_ok E"
  shows "addMonths E (Num n) \<lparr>year = Num y, month = Num m, day = Num d\<rparr> =
    (case spec_addMonths E n (y, m, d) of
       Inl e \<Rightarrow> Inl TypeError
     | Inr (y', m', d') \<Rightarrow> Inr \<lparr>year = Num y', month = Num m', day = Num d'\<rparr>)"
proof -
  obtain t1 y1 where up: "spec_carry_up (m + n) 0 = (t1, y1)" by (cases "spec_carry_up (m + n) 0")
  obtain t2 y2 where down: "spec_carry_down t1 y1 = (t2, y2)" by (cases "spec_carry_down t1 y1")
  have t1: "t1 \<le> 12" using spec_carry_up_le [of "m + n" 0] up by simp
  have t2: "1 \<le> t2" "t2 \<le> 12" using spec_carry_down_range [OF t1, of y1] down by simp_all
  have "addMonths E (Num n) \<lparr>year = Num y, month = Num m, day = Num d\<rparr> =
        adjustYear E \<lparr>year = Num y, month = Num m, day = Num d\<rparr> (Num (m + n)) 0"
    by (simp add: addMonths_def)
  also have "\<dots> = adjustYear E \<lparr>year = Num y, month = Num m, day = Num d\<rparr> (Num t1) y1"
    using adjustYear_carry_up [of E _ "m + n" 0] up by simp
  also have "\<dots> = adjustYear E \<lparr>year = Num y, month = Num m, day = Num d\<rparr> (Num t2) y2"
    using adjustYear_carry_down [OF t1, of E _ y1] down by simp
  also have "\<dots> = (case daysInMonthOf E (y + y2) t2 of
       Inl e \<Rightarrow> Inl TypeError
     | Inr len \<Rightarrow> Inr \<lparr>year = Num (y + y2), month = Num t2, day = Num (if d > len then len else d)\<rparr>)"
    by (rule adjustYear_settled [OF assms t2])
  also have "\<dots> = (case spec_addMonths E n (y, m, d) of
       Inl e \<Rightarrow> Inl TypeError
     | Inr (y', m', d') \<Rightarrow> Inr \<lparr>year = Num y', month = Num m', day = Num d'\<rparr>)"
    by (simp add: spec_addMonths_def up down split: sum.splits)
  finally show ?thesis .
qed

theorem addMonths_refines_spec_witness:
  "rows_ok example_deps \<and>
   spec_addMonths example_deps 1 (2075, 3, 32) = Inr (2075, 4, 31) \<and>
   addMonths example_deps (Num 1) \<lparr>year = Num 2075, month = Num 3, day = Num 32\<rparr> =
     Inr \<lparr>year = Num 2075, month = Num 4, day = Num 31\<rparr>"
proof -
  have r: "rows_ok example_deps" by code_simp
  have s: "spec_addMonths example_deps 1 (2075, 3, 32) = Inr (2075, 4, 31)" by code_simp
  show ?thesis using addMonths_refines_spec [OF r, of 1 2075 3 32] r s by simp
qed

subsection \<open>Printing\<close>

declare show_nat.simps [simp del]















subsection \<open>addYears\<close>

lemma spec_carry_up_whole_years:
  "1 \<le> m \<Longrightarrow> m \<le> 12 \<Longrightarrow> spec_carry_up (m + 12 * int k) ys = (m, ys + int k)"
proof (induction k arbitrary: ys)
  case 0
  then show ?case by (subst spec_carry_up.simps) simp
next
  case (Suc k)
  have "spec_carry_up (m + 12 * int (Suc k)) ys = spec_carry_up (m + 12 * int k) (ys + 1)"
    using Suc.prems by (subst spec_carry_up.simps) (simp add: algebra_simps)
  then show ?case using Suc by simp
qed

lemma spec_carry_down_whole_years:
  "1 \<le> m \<Longrightarrow> m \<le> 12 \<Longrightarrow> spec_carry_down (m - 12 * int k) ys = (m, ys - int k)"
proof (induction k arbitrary: ys)
  case 0
  then show ?case by (subst spec_carry_down.simps) simp
next
  case (Suc k)
  have "spec_carry_down (m - 12 * int (Suc k)) ys = spec_carry_down (m - 12 * int k) (ys - 1)"
    using Suc.prems by (subst spec_carry_down.simps) (simp add: algebra_simps)
  then show ?case using Suc by simp
qed

lemma addMonths_whole_years:
  assumes "rows_ok E" "1 \<le> m" "m \<le> 12"
  shows "addMonths E (Num (12 * n)) \<lparr>year = Num y, month = Num m, day = Num d\<rparr> =
    (case daysInMonthOf E (y + n) m of
       Inl e \<Rightarrow> Inl TypeError
     | Inr len \<Rightarrow> Inr \<lparr>year = Num (y + n), month = Num m, day = Num (if d > len then len else d)\<rparr>)"
proof -
  let ?date = "\<lparr>year = Num y, month = Num m, day = Num d\<rparr>"
  have start: "addMonths E (Num (12 * n)) ?date = adjustYear E ?date (Num (m + 12 * n)) 0"
    by (simp add: addMonths_def)
  have "adjustYear E ?date (Num (m + 12 * n)) 0 = adjustYear E ?date (Num m) n"
  proof (cases "0 \<le> n")
    case True
    then obtain k where n: "n = int k" using nonneg_int_cases by blast
    have "spec_carry_up (m + 12 * n) 0 = (m, n)"
      using spec_carry_up_whole_years [OF assms(2,3), of k 0] n by simp
    then show ?thesis using adjustYear_carry_up [of E ?date "m + 12 * n" 0] by simp
  next
    case False
    then obtain k where n: "n = - int k" by (metis int_cases2 nat_int of_nat_0_le_iff)
    have le: "m + 12 * n \<le> 12" using False assms(3) by simp
    have "spec_carry_down (m + 12 * n) 0 = (m, n)"
      using spec_carry_down_whole_years [OF assms(2,3), of k 0] n by simp
    then show ?thesis using adjustYear_carry_down [OF le, of E ?date 0] by simp
  qed
  also have "\<dots> = (case daysInMonthOf E (y + n) m of
       Inl e \<Rightarrow> Inl TypeError
     | Inr len \<Rightarrow> Inr \<lparr>year = Num (y + n), month = Num m, day = Num (if d > len then len else d)\<rparr>)"
    by (rule adjustYear_settled [OF assms])
  finally show ?thesis using start by simp
qed

text \<open>
  C10. \<open>addYears\<close> on a date with a year changes the year only. So from a valid
  date whose day does not exist in the same month \<open>n\<close> years later, \<open>addYears(n)\<close>
  reaches a date with that day kept, which \<open>toString\<close> prints as "Invalid Date";
  \<open>addMonths(12 * n)\<close> reaches the same year and month with the day clamped.
\<close>

theorem addYears_never_clamps:
  "(year this \<noteq> Undefined \<longrightarrow>
      year (addYears k this) = js_add (year this) k \<and>
      month (addYears k this) = month this \<and> day (addYears k this) = day this) \<and>
   (rows_ok E \<and> isDayValid E (Num y) (Num m) (Num d) = Inr True \<and>
    daysInMonthOf E (y + n) m = Inr len \<and> len < d \<longrightarrow>
      addYears (Num n) \<lparr>year = Num y, month = Num m, day = Num d\<rparr>
        = \<lparr>year = Num (y + n), month = Num m, day = Num d\<rparr> \<and>
      toString E (addYears (Num n) \<lparr>year = Num y, month = Num m, day = Num d\<rparr>)
        = Inr ''Invalid Date'' \<and>
      addMonths E (Num (12 * n)) \<lparr>year = Num y, month = Num m, day = Num d\<rparr>
        = Inr \<lparr>year = Num (y + n), month = Num m, day = Num len\<rparr>)"
proof -
  have general: "year this \<noteq> Undefined \<Longrightarrow>
      year (addYears k this) = js_add (year this) k \<and>
      month (addYears k this) = month this \<and> day (addYears k this) = day this"
    by (simp add: addYears_def)
  have reach: "addYears (Num n) \<lparr>year = Num y, month = Num m, day = Num d\<rparr>
        = \<lparr>year = Num (y + n), month = Num m, day = Num d\<rparr> \<and>
      toString E (addYears (Num n) \<lparr>year = Num y, month = Num m, day = Num d\<rparr>)
        = Inr ''Invalid Date'' \<and>
      addMonths E (Num (12 * n)) \<lparr>year = Num y, month = Num m, day = Num d\<rparr>
        = Inr \<lparr>year = Num (y + n), month = Num m, day = Num len\<rparr>"
    if r: "rows_ok E" and v: "isDayValid E (Num y) (Num m) (Num d) = Inr True"
      and l: "daysInMonthOf E (y + n) m = Inr len" and lt: "len < d"
  proof -
    have a: "addYears (Num n) \<lparr>year = Num y, month = Num m, day = Num d\<rparr>
        = \<lparr>year = Num (y + n), month = Num m, day = Num d\<rparr>"
      by (simp add: addYears_def)
    have b: "toString E \<lparr>year = Num (y + n), month = Num m, day = Num d\<rparr> = Inr ''Invalid Date''"
      using l lt by (simp add: toString_def InvalidDate_def)
    from v have m: "1 \<le> m" "m \<le> 12"
      by (auto simp: daysInMonthOf_def split: sum.splits option.splits if_splits)
    have c: "addMonths E (Num (12 * n)) \<lparr>year = Num y, month = Num m, day = Num d\<rparr>
        = Inr \<lparr>year = Num (y + n), month = Num m, day = Num len\<rparr>"
      using addMonths_whole_years [OF r m, of n y d] l lt by simp
    show ?thesis using a b c by simp
  qed
  show ?thesis using general reach by blast
qed

theorem addYears_never_clamps_witness:
  "rows_ok example_deps \<and> isDayValid example_deps (Num 2075) (Num 3) (Num 32) = Inr True \<and>
   daysInMonthOf example_deps (2075 + 1) 3 = Inr 31 \<and> (31::int) < 32 \<and>
   addYears (Num 1) \<lparr>year = Num 2075, month = Num 3, day = Num 32\<rparr>
     = \<lparr>year = Num (2075 + 1), month = Num 3, day = Num 32\<rparr> \<and>
   toString example_deps (addYears (Num 1) \<lparr>year = Num 2075, month = Num 3, day = Num 32\<rparr>)
     = Inr ''Invalid Date'' \<and>
   addMonths example_deps (Num (12 * 1)) \<lparr>year = Num 2075, month = Num 3, day = Num 32\<rparr>
     = Inr \<lparr>year = Num (2075 + 1), month = Num 3, day = Num 31\<rparr>"
proof -
  have r: "rows_ok example_deps" by code_simp
  have v: "isDayValid example_deps (Num 2075) (Num 3) (Num 32) = Inr True" by code_simp
  have l: "daysInMonthOf example_deps (2075 + 1) 3 = Inr 31" by code_simp
  have lt: "(31::int) < 32" by simp
  show ?thesis
    using addYears_never_clamps [of "\<lparr>year = Num 2075, month = Num 3, day = Num 32\<rparr>" "Num 1"
        example_deps 2075 3 32 1 31] r v l lt
    by blast
qed

subsection \<open>Conversion of an unset date\<close>

text \<open>
  C5 (as claimed, refuted). The claim asks \<open>toGregorian\<close> to flag an error on an unset
  date. On the unset date, with the clock at day 20394, the instance method and the
  static variant (no argument, or a string the parser rejects) return the clock's day
  as an ordinary result.
\<close>

theorem toGregorian_unset_counterexample:
  "toGregorian example_deps 20394 \<lparr>year = Undefined, month = Undefined, day = Undefined\<rparr>
     = Inr (Day 20394) \<and>
   static_toGregorian example_deps 20394 NoArg = Inr (Day 20394) \<and>
   static_toGregorian example_deps 20394 (FromString ''no date'') = Inr (Day 20394)"
  by (simp add: toGregorian_def static_toGregorian_def construct_def example_deps_def)

text \<open>
  C5 (amended). When the year, the month or the day of a BS date is unset (or \<open>NaN\<close>
  or \<open>0\<close>), \<open>toGregorian\<close> returns the current system date and raises no error; so
  does the static variant when called without an argument or with a string that the
  parser rejects.
\<close>

theorem toGregorian_unset_returns_now:
  "(\<not> truthy (year this) \<or> \<not> truthy (month this) \<or> \<not> truthy (day this)
      \<longrightarrow> toGregorian E now this = Inr (Day now)) \<and>
   static_toGregorian E now NoArg = Inr (Day now) \<and>
   (parse E s = ParseError msg \<longrightarrow> static_toGregorian E now (FromString s) = Inr (Day now))"
  by (auto simp: toGregorian_def static_toGregorian_def construct_def)

theorem toGregorian_unset_returns_now_witness:
  "\<not> truthy (year unset) \<and> toGregorian example_deps 20394 unset = Inr (Day 20394) \<and>
   parse example_deps ''no date'' = ParseError ''Invalid Date'' \<and>
   static_toGregorian example_deps 20394 (FromString ''no date'') = Inr (Day 20394)"
  using toGregorian_unset_returns_now [of unset example_deps 20394 "''no date''" "''Invalid Date''"]
  by (simp add: unset_def example_deps_def)

subsection \<open>Bad input\<close>

text \<open>
  C8. Construction without an argument or from a string that the parser rejects, and
  \<open>toBikramSambat\<close> of \<open>undefined\<close>, of the empty string, of a \<open>Date\<close> without a
  time value or of a string that \<open>Date\<close> cannot read, return normally with the unset
  date: all three fields \<open>undefined\<close>, no exception.
\<close>

theorem bad_input_gives_unset:
  "construct E NoArg = unset \<and>
   (parse E s = ParseError msg \<longrightarrow> construct E (FromString s) = unset) \<and>
   toBikramSambat E NoDate = Some (Inr unset) \<and>
   toBikramSambat E (DateString []) = Some (Inr unset) \<and>
   toBikramSambat E (DateObject NaNDate) = Some (Inr unset) \<and>
   (Date_parse E t = NaNDate \<longrightarrow> toBikramSambat E (DateString t) = Some (Inr unset))"
  by (auto simp: construct_def unset_def toBikramSambat_def Let_def)

theorem bad_input_gives_unset_witness:
  "parse example_deps ''2075-13-01'' = ParseError ''Invalid Date'' \<and>
   construct example_deps (FromString ''2075-13-01'') = unset \<and>
   Date_parse example_deps ''yesterday'' = NaNDate \<and>
   toBikramSambat example_deps (DateString ''yesterday'') = Some (Inr unset)"
  using bad_input_gives_unset [of example_deps "''2075-13-01''" "''Invalid Date''" "''yesterday''"]
  by (simp add: example_deps_def digit_value_def)

subsection \<open>Conversions between the calendars\<close>




lemma scanNewYears_sound:
  "scanNewYears E xs g = Inr (ny, y) \<Longrightarrow>
   (y, ny) \<in> set xs \<and> (\<exists>nx. map_of (NewYearMappingData E) (y + 1) = Some nx \<and> ny \<le> g \<and> g < nx)"
  by (induction xs) (auto split: option.splits if_splits)


















subsection \<open>addDays towards the past\<close>

text \<open>
  C3. One day before 1 Shrawan 2075 is 32 Ashad 2075, and the algorithm of the
  specification gives it. \<open>addDays(-1)\<close> gives 31 Ashad: \<open>adjustMonth\<close> adds the length
  of Shrawan (31), the month it has just left, because \<open>daysInMonth\<close> was read before
  \<open>addMonths(-1)\<close>.
\<close>

theorem addDays_backwards_uses_old_month:
  "addDays example_deps (Num (- 1)) \<lparr>year = Num 2075, month = Num 4, day = Num 1\<rparr>
     = Some (Inr \<lparr>year = Num 2075, month = Num 3, day = Num 31\<rparr>) \<and>
   spec_addDays example_deps (- 1) (2075, 4, 1) = Some (Inr (2075, 3, 32))"
  by code_simp

text \<open>
  C4. 32 Ashad 2075 is a valid date. A copy of it moved by one day is 1 Shrawan 2075,
  and moving that by minus one day gives 31 Ashad 2075, not the original date.
\<close>

theorem addDays_roundtrip_fails:
  "isDayValid example_deps (Num 2075) (Num 3) (Num 32) = Inr True \<and>
   addDays example_deps (Num 1)
     (construct example_deps (FromDate \<lparr>year = Num 2075, month = Num 3, day = Num 32\<rparr>))
     = Some (Inr \<lparr>year = Num 2075, month = Num 4, day = Num 1\<rparr>) \<and>
   addDays example_deps (Num (- 1)) \<lparr>year = Num 2075, month = Num 4, day = Num 1\<rparr>
     = Some (Inr \<lparr>year = Num 2075, month = Num 3, day = Num 31\<rparr>)"
  by code_simp

end
